theory Spec2Isabelle
  imports Main
begin

section \<open>Errors and identifier types\<close>

text \<open>
  The classes \<open>TokenId\<close> and \<open>AccountId\<close> and their wire forms \<open>ITokenID\<close> and
  \<open>IAccountID\<close> are imported by the sources but defined elsewhere. They are the type
  parameters \<open>'tok\<close>, \<open>'acct\<close>, \<open>'ptok\<close> and \<open>'pacct\<close> of everything below.
  \<open>EntityId\<close> names an id inside an error.
\<close>

datatype ('tok, 'acct) EntityId = TokenEntity 'tok | AccountEntity 'acct

text \<open>
  Every \<open>throw\<close> is a value. \<open>TypeError\<close> is JavaScript's own error for a property read
  or a method call on \<open>null\<close> or \<open>undefined\<close>; \<open>TinybarValueError\<close> is the error of
  \<open>tinybarToString\<close> for an amount it refuses; the other names are those of the
  specification's error taxonomy.
\<close>

datatype 'id error =
    FrozenTransactionError
  | AlreadyFrozenError
  | TransactionNotFrozenError
  | NoNodeIdsAvailable
  | InvalidChecksumError 'id
  | MalformedEntityId string
  | UnknownTransactionKind string
  | ValidationError "string list"
  | TinybarValueError
  | TypeError

text \<open>An argument of type \<open>TokenId | string\<close> or \<open>AccountId | string\<close>.\<close>

datatype 'a IdLike = IdString string | IdObject 'a

text \<open>
  The static and instance methods of \<open>TokenId\<close> and \<open>AccountId\<close> that the sources call.
  Their bodies are not among the sources, so they are parameters, collected in one record.
  \<open>fromString\<close> parses and may throw (a malformed entity id is an error of the
  specification's taxonomy); the protobuf conversions return a value.
\<close>

record ('tok, 'acct, 'ptok, 'pacct) IdMethods =
  TokenId_fromString :: "string \<Rightarrow> ('tok, 'acct) EntityId error + 'tok"
  TokenId_fromProtobuf :: "'ptok \<Rightarrow> 'tok"
  TokenId_toProtobuf :: "'tok \<Rightarrow> 'ptok"
  AccountId_fromString :: "string \<Rightarrow> ('tok, 'acct) EntityId error + 'acct"
  AccountId_fromProtobuf :: "'pacct \<Rightarrow> 'acct"
  AccountId_toProtobuf :: "'acct \<Rightarrow> 'pacct"

text \<open>
  \<open>id.clone()\<close> returns a fresh object with the same contents. Identifiers are immutable
  value types, so on values the copy is the value itself.
\<close>

definition clone :: "'a \<Rightarrow> 'a" where
  "clone x = x"

text \<open>
  \<open>Array.prototype.map\<close> with a callback that may throw: the elements are visited from
  left to right and the first exception leaves the loop.
\<close>

fun Array_map :: "('a \<Rightarrow> 'e + 'b) \<Rightarrow> 'a list \<Rightarrow> 'e + 'b list" where
  "Array_map f [] = Inr []"
| "Array_map f (x # xs) =
     (case f x of
        Inl e \<Rightarrow> Inl e
      | Inr y \<Rightarrow> (case Array_map f xs of Inl e \<Rightarrow> Inl e | Inr ys \<Rightarrow> Inr (y # ys)))"

text \<open>\<open>new Hbar(n)\<close>: an amount of \<open>n\<close> hbar.\<close>

datatype Hbar = Hbar int

section \<open>The transaction base class\<close>

text \<open>
  Modelled from the spec: "TransactionId: {accountId, validStart timestamp}", of which
  the sources have the import only.
\<close>

datatype 'acct TransactionId = TransactionId 'acct int

text \<open>
  Modelled from the spec: \<open>Transaction.js\<close> (the base class, its constructor,
  \<open>requireNotFrozen\<close>, \<open>freeze\<close>, \<open>fromProtobufTransactions\<close> and the registry) is
  imported by \<open>TokenDissociateTransaction.js\<close> but is not among the sources. The record
  holds the fields of the specification's data model (section 3): the transaction ids,
  the node ids, the signatures keyed by node index and public key, the frozen flag, the
  maximum fee and the body cached for every pair of a transaction id and a node id.
  The payload is the extension of the record, one per transaction kind.
\<close>

record ('acct, 'b) Transaction =
  transactionIds :: "'acct TransactionId list"
  nodeIds :: "'acct list"
  signatures :: "((nat \<times> string) \<times> string) list"
  frozen :: bool
  maxTransactionFee :: "Hbar option"
  bodyBytes :: "'b list"

text \<open>
  Modelled from the spec: the base constructor \<open>super()\<close>. "Transaction is created
  mutable": not frozen, nothing assigned, nothing signed, nothing cached.
\<close>

definition Transaction_new :: "('acct, 'b) Transaction" where
  "Transaction_new =
     \<lparr>transactionIds = [], nodeIds = [], signatures = [], frozen = False,
      maxTransactionFee = None, bodyBytes = []\<rparr>"

text \<open>
  Modelled from the spec: \<open>this[symbols.requireNotFrozen]()\<close>. A setter "succeeds only
  if \<open>frozen == false\<close>; otherwise fails with \<open>FrozenTransactionError\<close>".
\<close>

definition requireNotFrozen :: "('acct, 'b, 'z) Transaction_scheme \<Rightarrow> 'id error + unit" where
  "requireNotFrozen this = (if frozen this then Inl FrozenTransactionError else Inr ())"

text \<open>
  Modelled from the spec: \<open>freeze(nodeIds, transactionId, maxFee-default)\<close> of section 4.2.
  It "assigns nodeIds (from caller or from the executing client's default node list) and
  a transactionId if not already set; computes and caches the body bytes for every
  (transactionId-chunk, nodeId) pair; flips \<open>frozen = true\<close>. Fails with
  \<open>NoNodeIdsAvailable\<close> if the node list is empty, and with \<open>AlreadyFrozenError\<close> if
  called twice". The bodies are computed by the transaction kind (\<open>makeBodies\<close>, a
  method of the subclass). The result is the outcome together with the transaction as
  the call leaves it, so that a failed call shows what it changed.
\<close>

definition freeze ::
  "(('acct, 'b, 'z) Transaction_scheme \<Rightarrow> 'id error + 'b list) \<Rightarrow> 'acct list \<Rightarrow> 'acct list \<Rightarrow>
   'acct TransactionId \<Rightarrow> Hbar \<Rightarrow> ('acct, 'b, 'z) Transaction_scheme \<Rightarrow>
   ('id error + unit) \<times> ('acct, 'b, 'z) Transaction_scheme" where
  "freeze makeBodies callerNodeIds clientNodeIds transactionId defaultFee this =
     (if frozen this then (Inl AlreadyFrozenError, this)
      else
        let nodes = (if callerNodeIds \<noteq> [] then callerNodeIds else clientNodeIds) in
        if nodes = [] then (Inl NoNodeIdsAvailable, this)
        else
          let assigned = this
                \<lparr>nodeIds := nodes,
                 transactionIds :=
                   (if transactionIds this = [] then [transactionId] else transactionIds this),
                 maxTransactionFee :=
                   (case maxTransactionFee this of None \<Rightarrow> Some defaultFee | Some fee \<Rightarrow> Some fee)\<rparr>
          in case makeBodies assigned of
               Inl e \<Rightarrow> (Inl e, this)
             | Inr bodies \<Rightarrow> (Inr (), assigned\<lparr>bodyBytes := bodies, frozen := True\<rparr>))"

text \<open>
  Modelled from the spec: the bodies of \<open>toWireEnvelopes()\<close>, "pure function over
  frozen+signed state": the cached bodies of a frozen transaction.
\<close>

definition toWireBodies :: "('acct, 'b, 'z) Transaction_scheme \<Rightarrow> 'id error + 'b list" where
  "toWireBodies this = (if frozen this then Inr (bodyBytes this) else Inl TransactionNotFrozenError)"

section \<open>TokenDissociateTransaction.js\<close>

subsection \<open>Wire records\<close>

text \<open>
  \<open>ITokenDissociateTransactionBody\<close>: the two fields the source reads and writes. An
  absent field (\<open>null\<close> or \<open>undefined\<close>, which the source's \<open>!= null\<close> tests do not
  tell apart) is \<open>None\<close>.
\<close>

record ('ptok, 'pacct) TokenDissociateTransactionBody =
  tokens :: "'ptok list option"
  account :: "'pacct option"

text \<open>
  \<open>ITransactionBody\<close>. The source reads \<open>body.tokenDissociate\<close> only. Modelled from the
  spec: the other fields, one body per pair of a transaction id and a node id, the fee
  of the transaction, and the discriminator tag of the payload (\<open>data\<close>, the name of the
  case that is set). The wire codec is outside the sources and assumed faithful by the
  specification (section 1), so a serialized body is compared as this decoded record.
\<close>

record ('acct, 'ptok, 'pacct) TransactionBody =
  transactionID :: "'acct TransactionId"
  nodeAccountID :: "'acct"
  transactionFee :: "Hbar option"
  data :: "string option"
  tokenDissociate :: "('ptok, 'pacct) TokenDissociateTransactionBody option"

subsection \<open>The class\<close>

text \<open>
  The fields of the class on top of the base class: \<open>_tokenIds\<close> (\<open>?TokenId[]\<close>; an
  element can be tested for \<open>null\<close> by \<open>validateChecksums\<close>, so elements are options),
  \<open>_accountId\<close> and \<open>_defaultMaxTransactionFee\<close>, which the constructor assigns.
\<close>

record ('tok, 'acct, 'ptok, 'pacct) TokenDissociateTransaction =
  "('acct, ('acct, 'ptok, 'pacct) TransactionBody) Transaction" +
  tokenIds :: "'tok option list option"
  accountId :: "'acct option"
  defaultMaxTransactionFee :: Hbar

text \<open>The constructor's \<open>props\<close> object; a property that is not given is \<open>None\<close>.\<close>

record ('tok, 'acct) Props =
  props_tokenIds :: "'tok IdLike list option"
  props_accountId :: "'acct IdLike option"

text \<open>
  \<open>setTokenIds(tokenIds)\<close>: the frozen check, then the map over the argument (a string is
  parsed, a \<open>TokenId\<close> is cloned), then the assignment. An exception leaves before the
  assignment. A setter returns its outcome and the transaction as the call leaves it;
  \<open>return this\<close> is that transaction.
\<close>

definition setTokenIds ::
  "('tok, 'acct, 'ptok, 'pacct) IdMethods \<Rightarrow> 'tok IdLike list \<Rightarrow>
   ('tok, 'acct, 'ptok, 'pacct) TokenDissociateTransaction \<Rightarrow>
   (('tok, 'acct) EntityId error + unit) \<times> ('tok, 'acct, 'ptok, 'pacct) TokenDissociateTransaction" where
  "setTokenIds E ids this =
     (case requireNotFrozen this of
        Inl e \<Rightarrow> (Inl e, this)
      | Inr _ \<Rightarrow>
          (case Array_map
                  (\<lambda>tokenId. case tokenId of
                      IdString s \<Rightarrow> TokenId_fromString E s
                    | IdObject t \<Rightarrow> Inr (clone t)) ids of
             Inl e \<Rightarrow> (Inl e, this)
           | Inr ts \<Rightarrow> (Inr (), this\<lparr>tokenIds := Some (map Some ts)\<rparr>)))"

text \<open>\<open>setAccountId(accountId)\<close>: the frozen check, then the parse or the clone.\<close>

definition setAccountId ::
  "('tok, 'acct, 'ptok, 'pacct) IdMethods \<Rightarrow> 'acct IdLike \<Rightarrow>
   ('tok, 'acct, 'ptok, 'pacct) TokenDissociateTransaction \<Rightarrow>
   (('tok, 'acct) EntityId error + unit) \<times> ('tok, 'acct, 'ptok, 'pacct) TokenDissociateTransaction" where
  "setAccountId E a this =
     (case requireNotFrozen this of
        Inl e \<Rightarrow> (Inl e, this)
      | Inr _ \<Rightarrow>
          (case (case a of IdString s \<Rightarrow> AccountId_fromString E s | IdObject x \<Rightarrow> Inr (clone x)) of
             Inl e \<Rightarrow> (Inl e, this)
           | Inr x \<Rightarrow> (Inr (), this\<lparr>accountId := Some x\<rparr>)))"

text \<open>
  \<open>constructor(props = {})\<close>: \<open>super()\<close>, the three assignments, then the two setters for
  the properties that are given. An exception of a setter leaves the constructor, and no
  object is built.
\<close>

definition TokenDissociateTransaction_new ::
  "('tok, 'acct, 'ptok, 'pacct) IdMethods \<Rightarrow> ('tok, 'acct) Props option \<Rightarrow>
   ('tok, 'acct) EntityId error + ('tok, 'acct, 'ptok, 'pacct) TokenDissociateTransaction" where
  "TokenDissociateTransaction_new E propsArg =
     (let props = (case propsArg of
                     None \<Rightarrow> \<lparr>props_tokenIds = None, props_accountId = None\<rparr>
                   | Some p \<Rightarrow> p);
          this0 = Transaction.extend Transaction_new
                    (TokenDissociateTransaction.fields None None (Hbar 5))
      in case (case props_tokenIds props of
                 None \<Rightarrow> (Inr (), this0)
               | Some ids \<Rightarrow> setTokenIds E ids this0) of
           (Inl e, _) \<Rightarrow> Inl e
         | (Inr _, this1) \<Rightarrow>
             (case (case props_accountId props of
                      None \<Rightarrow> (Inr (), this1)
                    | Some a \<Rightarrow> setAccountId E a this1) of
                (Inl e, _) \<Rightarrow> Inl e
              | (Inr _, this2) \<Rightarrow> Inr this2))"

text \<open>
  Modelled from the spec: \<open>Transaction[symbols.fromProtobufTransactions]\<close>, the base
  class's half of \<open>fromWire(decodedBodies, transactionIds, nodeIds)\<close>. It attaches the
  transaction ids, the node ids and the decoded bodies to the transaction it is given,
  takes the fee from the first body and leaves the transaction frozen; signatures "are
  not carried by this path", so \<open>transactions\<close> and \<open>signedTransactions\<close> are passed
  through unread. It works on the base fields only and so cannot touch a payload.
  Without a first body there is no fee to read (a \<open>TypeError\<close>).
\<close>

definition fromProtobufTransactions ::
  "('acct, ('acct, 'ptok, 'pacct) TransactionBody, 'z) Transaction_scheme \<Rightarrow> 't list \<Rightarrow> 's list \<Rightarrow>
   'acct TransactionId list \<Rightarrow> 'acct list \<Rightarrow> ('acct, 'ptok, 'pacct) TransactionBody list \<Rightarrow>
   'id error + ('acct, ('acct, 'ptok, 'pacct) TransactionBody, 'z) Transaction_scheme" where
  "fromProtobufTransactions transaction transactions signedTransactions ids nodes bodies =
     (case bodies of
        [] \<Rightarrow> Inl TypeError
      | body # _ \<Rightarrow>
          Inr (transaction
                 \<lparr>transactionIds := ids, nodeIds := nodes, signatures := [], frozen := True,
                  maxTransactionFee := transactionFee body, bodyBytes := bodies\<rparr>))"

text \<open>
  \<open>static [symbols.fromProtobuf](transactions, signedTransactions, transactionIds, nodeIds,
  bodies)\<close>. \<open>bodies[0]\<close> of an empty list is \<open>undefined\<close>, and so is \<open>body.tokenDissociate\<close>
  of a body of another kind: the next property read throws a \<open>TypeError\<close>.
\<close>

definition fromProtobuf ::
  "('tok, 'acct, 'ptok, 'pacct) IdMethods \<Rightarrow> 't list \<Rightarrow> 's list \<Rightarrow>
   'acct TransactionId list \<Rightarrow> 'acct list \<Rightarrow> ('acct, 'ptok, 'pacct) TransactionBody list \<Rightarrow>
   ('tok, 'acct) EntityId error + ('tok, 'acct, 'ptok, 'pacct) TokenDissociateTransaction" where
  "fromProtobuf E transactions signedTransactions ids nodes bodies =
     (case bodies of
        [] \<Rightarrow> Inl TypeError
      | body # _ \<Rightarrow>
          (case tokenDissociate body of
             None \<Rightarrow> Inl TypeError
           | Some dissociateToken \<Rightarrow>
               (case TokenDissociateTransaction_new E
                       (Some \<lparr>props_tokenIds =
                                 (case tokens dissociateToken of
                                    None \<Rightarrow> None
                                  | Some ts \<Rightarrow>
                                      Some (map (\<lambda>token. IdObject (TokenId_fromProtobuf E token)) ts)),
                              props_accountId =
                                 (case account dissociateToken of
                                    None \<Rightarrow> None
                                  | Some a \<Rightarrow> Some (IdObject (AccountId_fromProtobuf E a)))\<rparr>) of
                  Inl e \<Rightarrow> Inl e
                | Inr transaction \<Rightarrow>
                    fromProtobufTransactions transaction transactions signedTransactions
                      ids nodes bodies)))"

text \<open>
  Modelled from the spec: \<open>id.validateChecksum(client)\<close>, a method of the identifier
  classes. It "fails with \<open>InvalidChecksumError\<close> naming the offending id if its checksum
  does not match the expected value for the configured network"; whether it matches is
  the parameter \<open>matches\<close>.
\<close>

definition validateChecksum ::
  "('client \<Rightarrow> 'id \<Rightarrow> bool) \<Rightarrow> 'client \<Rightarrow> 'id \<Rightarrow> 'id error + unit" where
  "validateChecksum matches client ident =
     (if matches client ident then Inr () else Inl (InvalidChecksumError ident))"

text \<open>
  The \<open>for ... of\<close> loop of \<open>[symbols.validateChecksums]\<close> over the token ids, with its
  \<open>!= null\<close> guard. \<open>seen\<close> records every id \<open>validateChecksum\<close> was called on, in order.
\<close>

fun validateTokenIds ::
  "('client \<Rightarrow> ('tok, 'acct) EntityId \<Rightarrow> bool) \<Rightarrow> 'client \<Rightarrow> 'tok option list \<Rightarrow>
   ('tok, 'acct) EntityId list \<Rightarrow>
   (('tok, 'acct) EntityId error + unit) \<times> ('tok, 'acct) EntityId list" where
  "validateTokenIds matches client [] seen = (Inr (), seen)"
| "validateTokenIds matches client (tokenId # rest) seen =
     (case tokenId of
        None \<Rightarrow> validateTokenIds matches client rest seen
      | Some t \<Rightarrow>
          (case validateChecksum matches client (TokenEntity t) of
             Inl e \<Rightarrow> (Inl e, seen @ [TokenEntity t])
           | Inr _ \<Rightarrow> validateTokenIds matches client rest (seen @ [TokenEntity t])))"

text \<open>
  \<open>[symbols.validateChecksums](client)\<close>: the account id when it is not \<open>null\<close>, then the
  loop over \<open>this._tokenIds != null ? this._tokenIds : []\<close>. The second component lists
  the ids whose checksum validation was called.
\<close>

definition validateChecksums ::
  "('client \<Rightarrow> ('tok, 'acct) EntityId \<Rightarrow> bool) \<Rightarrow> 'client \<Rightarrow>
   ('tok, 'acct, 'ptok, 'pacct) TokenDissociateTransaction \<Rightarrow>
   (('tok, 'acct) EntityId error + unit) \<times> ('tok, 'acct) EntityId list" where
  "validateChecksums matches client this =
     (case (case accountId this of
              None \<Rightarrow> (Inr (), [])
            | Some a \<Rightarrow> (validateChecksum matches client (AccountEntity a), [AccountEntity a])) of
        (Inl e, seen) \<Rightarrow> (Inl e, seen)
      | (Inr _, seen) \<Rightarrow>
          validateTokenIds matches client
            (case tokenIds this of None \<Rightarrow> [] | Some ts \<Rightarrow> ts) seen)"

text \<open>
  Modelled from the spec: the channel (section 6), "an externally supplied transport
  exposing one send operation per service method name ..., returning a structured
  acknowledgement". \<open>respond\<close> is the transport: the acknowledgement of a service method
  for a request, which may depend on what was sent before. \<open>sent\<close> is the log of the
  calls made on the channel. \<open>channel.service.method(request)\<close> is \<open>Channel_call\<close>.
\<close>

record ('req, 'resp) Channel =
  respond :: "(string \<times> string \<times> 'req) list \<Rightarrow> string \<Rightarrow> string \<Rightarrow> 'req \<Rightarrow> 'resp"
  sent :: "(string \<times> string \<times> 'req) list"

definition Channel_call ::
  "string \<Rightarrow> string \<Rightarrow> 'req \<Rightarrow> ('req, 'resp) Channel \<Rightarrow> 'resp \<times> ('req, 'resp) Channel" where
  "Channel_call service operation request channel =
     (respond channel (sent channel) service operation request,
      channel\<lparr>sent := sent channel @ [(service, operation, request)]\<rparr>)"

text \<open>
  \<open>[symbols.execute](channel, request)\<close> returns \<open>channel.token.dissociateTokens(request)\<close>.
  The promise it returns is the promise of the channel, modelled by its acknowledgement.
\<close>

definition execute ::
  "('tok, 'acct, 'ptok, 'pacct) TokenDissociateTransaction \<Rightarrow> ('req, 'resp) Channel \<Rightarrow> 'req \<Rightarrow>
   'resp \<times> ('req, 'resp) Channel" where
  "execute this channel request = Channel_call ''token'' ''dissociateTokens'' request channel"

text \<open>\<open>[symbols.getTransactionDataCase]()\<close>.\<close>

definition getTransactionDataCase ::
  "('tok, 'acct, 'ptok, 'pacct) TokenDissociateTransaction \<Rightarrow> string" where
  "getTransactionDataCase this = ''tokenDissociate''"

text \<open>
  \<open>[symbols.makeTransactionData]()\<close>. \<open>tokenId[symbols.toProtobuf]()\<close> on a \<open>null\<close>
  element throws a \<open>TypeError\<close>.
\<close>

definition makeTransactionData ::
  "('tok, 'acct, 'ptok, 'pacct) IdMethods \<Rightarrow>
   ('tok, 'acct, 'ptok, 'pacct) TokenDissociateTransaction \<Rightarrow>
   ('tok, 'acct) EntityId error + ('ptok, 'pacct) TokenDissociateTransactionBody" where
  "makeTransactionData E this =
     (case (case tokenIds this of
              None \<Rightarrow> Inr None
            | Some ts \<Rightarrow>
                (case Array_map
                        (\<lambda>tokenId. case tokenId of
                            None \<Rightarrow> Inl TypeError
                          | Some t \<Rightarrow> Inr (TokenId_toProtobuf E t)) ts of
                   Inl e \<Rightarrow> Inl e
                 | Inr ps \<Rightarrow> Inr (Some ps))) of
        Inl e \<Rightarrow> Inl e
      | Inr toks \<Rightarrow>
          Inr \<lparr>tokens = toks,
               account = (case accountId this of
                            None \<Rightarrow> None
                          | Some a \<Rightarrow> Some (AccountId_toProtobuf E a))\<rparr>)"

subsection \<open>The registry and the wire bodies\<close>

text \<open>
  \<open>TRANSACTION_REGISTRY\<close> is a \<open>Map\<close> from the discriminator tag to a from-protobuf
  constructor. The statement at the end of the module is \<open>TRANSACTION_REGISTRY.set\<close> with
  the tag \<open>"tokenDissociate"\<close> and the class's constructor, on whatever the registry
  held before.
\<close>

definition TokenDissociateTransaction_register ::
  "('tok, 'acct, 'ptok, 'pacct) IdMethods \<Rightarrow>
   (string \<rightharpoonup> ('t list \<Rightarrow> 's list \<Rightarrow> 'acct TransactionId list \<Rightarrow> 'acct list \<Rightarrow>
      ('acct, 'ptok, 'pacct) TransactionBody list \<Rightarrow>
      ('tok, 'acct) EntityId error + ('tok, 'acct, 'ptok, 'pacct) TokenDissociateTransaction)) \<Rightarrow>
   (string \<rightharpoonup> ('t list \<Rightarrow> 's list \<Rightarrow> 'acct TransactionId list \<Rightarrow> 'acct list \<Rightarrow>
      ('acct, 'ptok, 'pacct) TransactionBody list \<Rightarrow>
      ('tok, 'acct) EntityId error + ('tok, 'acct, 'ptok, 'pacct) TokenDissociateTransaction))" where
  "TokenDissociateTransaction_register E registry = registry(''tokenDissociate'' \<mapsto> fromProtobuf E)"

text \<open>
  Modelled from the spec: \<open>constructFromWire(kindTag, decodedBody)\<close> of section 4.1, which
  "must fail with an \<open>UnknownTransactionKind\<close> error if the tag has no registered
  constructor", and \<open>fromWire(decodedBodies, transactionIds, nodeIds)\<close> of section 4.2,
  the "inverse operation via the Payload Registry": the tag of the first body selects
  the constructor, which gets the bodies, the transaction ids and the node ids, and no
  signed transactions.
\<close>

definition constructFromWire :: "(string \<rightharpoonup> 'c) \<Rightarrow> string \<Rightarrow> 'id error + 'c" where
  "constructFromWire registry kindTag =
     (case registry kindTag of
        None \<Rightarrow> Inl (UnknownTransactionKind kindTag)
      | Some constructor \<Rightarrow> Inr constructor)"

text \<open>
  Modelled from the spec: \<open>fromWire\<close>, as described above. Without a body there is no
  tag to read (a \<open>TypeError\<close>); a body without a payload case has no registered
  constructor.
\<close>

definition fromWire ::
  "(string \<rightharpoonup> ('t list \<Rightarrow> 's list \<Rightarrow> 'acct TransactionId list \<Rightarrow> 'acct list \<Rightarrow>
      ('acct, 'ptok, 'pacct) TransactionBody list \<Rightarrow> 'id error + 'r)) \<Rightarrow>
   ('acct, 'ptok, 'pacct) TransactionBody list \<Rightarrow> 'acct TransactionId list \<Rightarrow> 'acct list \<Rightarrow>
   'id error + 'r" where
  "fromWire registry bodies ids nodes =
     (case bodies of
        [] \<Rightarrow> Inl TypeError
      | first # _ \<Rightarrow>
          (case data first of
             None \<Rightarrow> Inl (UnknownTransactionKind [])
           | Some kindTag \<Rightarrow>
               (case constructFromWire registry kindTag of
                  Inl e \<Rightarrow> Inl e
                | Inr constructor \<Rightarrow> constructor [] [] ids nodes bodies)))"

text \<open>
  Modelled from the spec: the bodies of a token-dissociate transaction, one "for every
  (transactionId-chunk, nodeId) pair", each holding the pair, the fee, the tag of
  \<open>getTransactionDataCase\<close> and the payload of \<open>makeTransactionData\<close>.
\<close>

definition makeTransactionBodies ::
  "('tok, 'acct, 'ptok, 'pacct) IdMethods \<Rightarrow>
   ('tok, 'acct, 'ptok, 'pacct) TokenDissociateTransaction \<Rightarrow>
   ('tok, 'acct) EntityId error + ('acct, 'ptok, 'pacct) TransactionBody list" where
  "makeTransactionBodies E this =
     (case makeTransactionData E this of
        Inl e \<Rightarrow> Inl e
      | Inr payload \<Rightarrow>
          Inr (concat (map (\<lambda>t. map (\<lambda>n.
                 \<lparr>transactionID = t, nodeAccountID = n,
                  transactionFee = maxTransactionFee this,
                  data = Some (getTransactionDataCase this),
                  tokenDissociate = Some payload\<rparr>) (nodeIds this)) (transactionIds this))))"

text \<open>
  A frozen transaction whose cached bodies are the bodies of its state, at least one:
  what \<open>freeze\<close> with \<open>makeTransactionBodies\<close> leaves, and what the round trip is about.
\<close>

definition wireConsistent ::
  "('tok, 'acct, 'ptok, 'pacct) IdMethods \<Rightarrow>
   ('tok, 'acct, 'ptok, 'pacct) TokenDissociateTransaction \<Rightarrow> bool" where
  "wireConsistent E this =
     (frozen this \<and> bodyBytes this \<noteq> [] \<and> makeTransactionBodies E this = Inr (bodyBytes this))"

section \<open>ContractExecuteTransaction.ts\<close>

text \<open>
  \<open>ContractCallTransactionBody\<close> is a generated protobuf message, not among the sources.
  The class uses four of its fields through the generated accessors: \<open>setX(v)\<close> stores
  the field and \<open>hasContractid()\<close> tests that one is stored. \<open>'pcid\<close> is the wire form of
  a contract id and \<open>'bytes\<close> the \<open>Uint8Array\<close> of the function parameters.
\<close>

record ('pcid, 'bytes) ContractCallTransactionBody =
  gas :: "string option"
  amount :: "string option"
  functionparameters :: "'bytes option"
  contractid :: "'pcid option"

definition hasContractid :: "('pcid, 'bytes) ContractCallTransactionBody \<Rightarrow> bool" where
  "hasContractid b = (contractid b \<noteq> None)"

text \<open>
  The class has the one field \<open>_body\<close>. Its base class \<open>TransactionBuilder\<close> is not among
  the sources; the specification knows one transaction aggregate with a frozen flag
  (section 3), so the class extends the base record above. \<open>this._inner\<close> refers to the
  same body object (\<open>this._inner.setContractcall(this._body)\<close>), so the body is kept once.
\<close>

record ('acct, 'b, 'pcid, 'bytes) ContractExecuteTransaction =
  "('acct, 'b) Transaction" +
  body :: "('pcid, 'bytes) ContractCallTransactionBody"

text \<open>\<open>constructor()\<close>: \<open>super()\<close>, then a new, empty body.\<close>

definition ContractExecuteTransaction_new ::
  "('acct, 'b, 'pcid, 'bytes) ContractExecuteTransaction" where
  "ContractExecuteTransaction_new =
     Transaction.extend Transaction_new
       (ContractExecuteTransaction.fields
          \<lparr>gas = None, amount = None, functionparameters = None, contractid = None\<rparr>)"

text \<open>
  The four setters. Each writes one field of \<open>_body\<close> and returns \<open>this\<close>; none reads
  the frozen flag. The helpers they call are not among the sources and are parameters:
  JavaScript's \<open>String\<close> on a \<open>number | BigNumber\<close>; \<open>tinybarToString\<close>, which checks
  the amount and may throw; \<open>ContractFunctionParams\<close> with its constructor (\<open>newParams\<close>)
  and its \<open>_build(name)\<close>; and \<open>new ContractId(contractIdLike)._toProto()\<close>, which parses
  and may throw. An exception of a helper leaves the setter before the field is
  written. The result is shaped as that of the setters of the token transaction.
\<close>

definition setGas ::
  "('n \<Rightarrow> string) \<Rightarrow> 'n \<Rightarrow> ('acct, 'b, 'pcid, 'bytes) ContractExecuteTransaction \<Rightarrow>
   ('id error + unit) \<times> ('acct, 'b, 'pcid, 'bytes) ContractExecuteTransaction" where
  "setGas String g this = (Inr (), this\<lparr>body := (body this)\<lparr>gas := Some (String g)\<rparr>\<rparr>)"

definition setPayableAmount ::
  "('amt \<Rightarrow> 'id error + string) \<Rightarrow> 'amt \<Rightarrow>
   ('acct, 'b, 'pcid, 'bytes) ContractExecuteTransaction \<Rightarrow>
   ('id error + unit) \<times> ('acct, 'b, 'pcid, 'bytes) ContractExecuteTransaction" where
  "setPayableAmount tinybarToString a this =
     (case tinybarToString a of
        Inl e \<Rightarrow> (Inl e, this)
      | Inr s \<Rightarrow> (Inr (), this\<lparr>body := (body this)\<lparr>amount := Some s\<rparr>\<rparr>))"

definition setFunction ::
  "('p \<Rightarrow> string \<Rightarrow> 'bytes) \<Rightarrow> 'p \<Rightarrow> string \<Rightarrow> 'p option \<Rightarrow>
   ('acct, 'b, 'pcid, 'bytes) ContractExecuteTransaction \<Rightarrow>
   ('id error + unit) \<times> ('acct, 'b, 'pcid, 'bytes) ContractExecuteTransaction" where
  "setFunction build newParams name params this =
     (Inr (),
      this\<lparr>body := (body this)
        \<lparr>functionparameters :=
           Some (build (case params of None \<Rightarrow> newParams | Some p \<Rightarrow> p) name)\<rparr>\<rparr>)"

definition setContractId ::
  "('c \<Rightarrow> 'id error + 'pcid) \<Rightarrow> 'c \<Rightarrow> ('acct, 'b, 'pcid, 'bytes) ContractExecuteTransaction \<Rightarrow>
   ('id error + unit) \<times> ('acct, 'b, 'pcid, 'bytes) ContractExecuteTransaction" where
  "setContractId ContractId_toProto contractIdLike this =
     (case ContractId_toProto contractIdLike of
        Inl e \<Rightarrow> (Inl e, this)
      | Inr c \<Rightarrow> (Inr (), this\<lparr>body := (body this)\<lparr>contractid := Some c\<rparr>\<rparr>))"

text \<open>\<open>_doValidate(errors)\<close>; \<open>errors.push\<close> appends to the list it is given.\<close>

definition doValidate ::
  "('acct, 'b, 'pcid, 'bytes) ContractExecuteTransaction \<Rightarrow> string list \<Rightarrow> string list" where
  "doValidate this errors =
     (if \<not> hasContractid (body this) then errors @ [''.setContractId() required''] else errors)"

text \<open>
  Modelled from the spec: \<open>execute\<close> of section 4.3, of which the sources have only the
  hook \<open>_doValidate\<close>. It fails "immediately with \<open>ValidationError\<close> if \<open>_doValidate\<close>
  reports missing required fields ... before any network call is attempted"; otherwise
  the network phase runs. The network phase is the parameter \<open>network\<close>: it gives its
  typed outcome (a result or a failure of the engine) and the calls it made.
\<close>

definition ContractExecuteTransaction_execute ::
  "(('acct, 'b, 'pcid, 'bytes) ContractExecuteTransaction \<Rightarrow> 'r \<times> 'call list) \<Rightarrow>
   ('acct, 'b, 'pcid, 'bytes) ContractExecuteTransaction \<Rightarrow> ('id error + 'r) \<times> 'call list" where
  "ContractExecuteTransaction_execute network this =
     (let errors = doValidate this [] in
      if errors \<noteq> [] then (Inl (ValidationError errors), [])
      else (case network this of (outcome, calls) \<Rightarrow> (Inr outcome, calls)))"

section \<open>Specification-side definitions\<close>

text \<open>
  The entity ids embedded in the payload, in the order the specification's
  \<open>validateChecksums\<close> "walks every entity id embedded in the payload": the account id
  when there is one, then every token id that is not \<open>null\<close>.
\<close>

definition embeddedEntityIds ::
  "('tok, 'acct, 'ptok, 'pacct) TokenDissociateTransaction \<Rightarrow> ('tok, 'acct) EntityId list" where
  "embeddedEntityIds this =
     (case accountId this of None \<Rightarrow> [] | Some a \<Rightarrow> [AccountEntity a]) @
     concat (map (\<lambda>tokenId. case tokenId of None \<Rightarrow> [] | Some t \<Rightarrow> [TokenEntity t])
               (case tokenIds this of None \<Rightarrow> [] | Some ts \<Rightarrow> ts))"

text \<open>
  What the walk over a list of ids comes to: success after every id was validated, or
  \<open>InvalidChecksumError\<close> naming the first id whose checksum does not match, after the
  ids before it and that id were validated.
\<close>

definition checksumOutcome ::
  "('client \<Rightarrow> 'id \<Rightarrow> bool) \<Rightarrow> 'client \<Rightarrow> 'id list \<Rightarrow> ('id error + unit) \<times> 'id list" where
  "checksumOutcome matches client idents =
     (case find (\<lambda>e. \<not> matches client e) idents of
        None \<Rightarrow> (Inr (), idents)
      | Some bad \<Rightarrow> (Inl (InvalidChecksumError bad), takeWhile (matches client) idents @ [bad]))"

section \<open>Example values\<close>

text \<open>
  Concrete inputs for the instances below. Identifiers and their wire forms are
  numbers; the strings \<open>0.0.7\<close> and \<open>0.0.3\<close> parse and every other string is malformed.
\<close>

definition exampleIds :: "(nat, nat, nat, nat) IdMethods" where
  "exampleIds =
     \<lparr>TokenId_fromString = (\<lambda>s. if s = ''0.0.7'' then Inr 7 else Inl (MalformedEntityId s)),
      TokenId_fromProtobuf = (\<lambda>p. p),
      TokenId_toProtobuf = (\<lambda>t. t),
      AccountId_fromString = (\<lambda>s. if s = ''0.0.3'' then Inr 3 else Inl (MalformedEntityId s)),
      AccountId_fromProtobuf = (\<lambda>p. p),
      AccountId_toProtobuf = (\<lambda>a. a)\<rparr>"

definition newDissociate :: "(nat, nat, nat, nat) TokenDissociateTransaction" where
  "newDissociate =
     Transaction.extend Transaction_new (TokenDissociateTransaction.fields None None (Hbar 5))"

text \<open>A contract call frozen by \<open>freeze\<close> for node 3, one body per node.\<close>

definition frozenContractCall ::
  "(nat, nat \<times> (nat, string) ContractCallTransactionBody, nat, string) ContractExecuteTransaction" where
  "frozenContractCall =
     snd (freeze (\<lambda>this. Inr (map (\<lambda>n. (n, body this)) (nodeIds this)) :: (nat, nat) EntityId error + _)
            [3] [] (TransactionId 2 0) (Hbar 1) ContractExecuteTransaction_new)"

text \<open>
  An amount is a sign and its decimal digits; \<open>tinybarToString\<close> refuses a negative one.
\<close>

definition exampleTinybarToString :: "bool \<times> string \<Rightarrow> (nat, nat) EntityId error + string" where
  "exampleTinybarToString a = (if fst a then Inl TinybarValueError else Inr (snd a))"

text \<open>A payload with a \<open>null\<close> token id, and a network on which token 8 has a bad checksum.\<close>

definition checkedDissociate :: "(nat, nat, nat, nat) TokenDissociateTransaction" where
  "checkedDissociate = newDissociate\<lparr>tokenIds := Some [Some 7, None, Some 8, Some 9], accountId := Some 3\<rparr>"

definition exampleMatches :: "string \<Rightarrow> (nat, nat) EntityId \<Rightarrow> bool" where
  "exampleMatches network ident = (ident \<noteq> TokenEntity 8)"

text \<open>A new contract call, and a channel that has already carried one request.\<close>

definition exampleCall ::
  "(nat, nat \<times> (nat, string) ContractCallTransactionBody, nat, string) ContractExecuteTransaction" where
  "exampleCall = ContractExecuteTransaction_new"

definition exampleChannel :: "(string, nat) Channel" where
  "exampleChannel =
     \<lparr>respond = (\<lambda>before service operation request.
         if service = ''token'' \<and> operation = ''dissociateTokens'' then length before else 99),
      sent = [(''crypto'', ''transfer'', ''earlier'')]\<rparr>"

text \<open>
  A transaction with two token ids and an account id, frozen by \<open>freeze\<close> for the nodes
  3 and 4; a decoded body; and a registry before the module is loaded.
\<close>

definition wiredDissociate :: "(nat, nat, nat, nat) TokenDissociateTransaction" where
  "wiredDissociate =
     snd (freeze (makeTransactionBodies exampleIds) [3, 4] [] (TransactionId 2 0) (Hbar 5)
            (newDissociate\<lparr>tokenIds := Some [Some 7, Some 9], accountId := Some 3\<rparr>))"

definition exampleBody :: "(nat, nat, nat) TransactionBody" where
  "exampleBody =
     \<lparr>transactionID = TransactionId 2 0, nodeAccountID = 3, transactionFee = Some (Hbar 5),
      data = Some ''tokenDissociate'',
      tokenDissociate = Some \<lparr>tokens = Some [7, 9], account = None\<rparr>\<rparr>"

definition emptyRegistry ::
  "string \<rightharpoonup> (string list \<Rightarrow> string list \<Rightarrow> nat TransactionId list \<Rightarrow> nat list \<Rightarrow>
      (nat, nat, nat) TransactionBody list \<Rightarrow>
      (nat, nat) EntityId error + (nat, nat, nat, nat) TokenDissociateTransaction)" where
  "emptyRegistry = Map.empty"

section \<open>Properties of the setters\<close>

lemma Array_map_Inr_I:
  "list_all2 (\<lambda>x y. f x = Inr y) xs ys \<Longrightarrow> Array_map f xs = Inr ys"
  by (induction rule: list_all2_induct) simp_all

text \<open>
  Claim C1, as amended. On a \<open>TokenDissociateTransaction\<close>, \<open>setTokenIds\<close> and
  \<open>setAccountId\<close> fail with \<open>FrozenTransactionError\<close> when the transaction is frozen;
  when it is not frozen and every string argument parses, they replace the field and
  succeed; whenever they fail they leave the transaction as it was. On a
  \<open>ContractExecuteTransaction\<close>, \<open>setGas\<close>, \<open>setPayableAmount\<close>, \<open>setFunction\<close> and
  \<open>setContractId\<close> make no frozen check: whatever the frozen flag says, \<open>setGas\<close> and
  \<open>setFunction\<close> (with or without \<open>params\<close>) write the field of the body and succeed,
  and \<open>setPayableAmount\<close> and \<open>setContractId\<close> do so when their argument converts; when
  \<open>tinybarToString\<close> or the \<open>ContractId\<close> conversion throws, the setter fails with that
  error and leaves the transaction as it was.
\<close>

theorem setters_frozen_check:
  "(frozen this \<longrightarrow>
      setTokenIds E ids this = (Inl FrozenTransactionError, this) \<and>
      setAccountId E a this = (Inl FrozenTransactionError, this))
   \<and> (\<not> frozen this \<and>
        list_all2 (\<lambda>x t. (case x of IdString s \<Rightarrow> TokenId_fromString E s | IdObject t' \<Rightarrow> Inr t') = Inr t)
          ids ts \<longrightarrow>
      setTokenIds E ids this = (Inr (), this\<lparr>tokenIds := Some (map Some ts)\<rparr>))
   \<and> (\<not> frozen this \<and>
        (case a of IdString s \<Rightarrow> AccountId_fromString E s | IdObject x' \<Rightarrow> Inr x') = Inr x \<longrightarrow>
      setAccountId E a this = (Inr (), this\<lparr>accountId := Some x\<rparr>))
   \<and> (fst (setTokenIds E ids this) \<noteq> Inr () \<longrightarrow> snd (setTokenIds E ids this) = this)
   \<and> (fst (setAccountId E a this) \<noteq> Inr () \<longrightarrow> snd (setAccountId E a this) = this)
   \<and> setGas String g c = (Inr (), c\<lparr>body := (body c)\<lparr>gas := Some (String g)\<rparr>\<rparr>)
   \<and> (tinybarToString amt = Inr digits \<longrightarrow>
        setPayableAmount tinybarToString amt c =
          (Inr (), c\<lparr>body := (body c)\<lparr>amount := Some digits\<rparr>\<rparr>))
   \<and> (tinybarToString amt = Inl e \<longrightarrow> setPayableAmount tinybarToString amt c = (Inl e, c))
   \<and> setFunction build newParams name params c =
        (Inr (), c\<lparr>body := (body c)
           \<lparr>functionparameters :=
              Some (build (case params of None \<Rightarrow> newParams | Some p \<Rightarrow> p) name)\<rparr>\<rparr>)
   \<and> (ContractId_toProto cid = Inr pc \<longrightarrow>
        setContractId ContractId_toProto cid c =
          (Inr (), c\<lparr>body := (body c)\<lparr>contractid := Some pc\<rparr>\<rparr>))
   \<and> (ContractId_toProto cid = Inl e' \<longrightarrow> setContractId ContractId_toProto cid c = (Inl e', c))"
proof -
  have frz: "frozen this \<longrightarrow>
      setTokenIds E ids this = (Inl FrozenTransactionError, this) \<and>
      setAccountId E a this = (Inl FrozenTransactionError, this)"
    by (simp add: setTokenIds_def setAccountId_def requireNotFrozen_def)
  have tok: "\<not> frozen this \<and>
        list_all2 (\<lambda>x t. (case x of IdString s \<Rightarrow> TokenId_fromString E s | IdObject t' \<Rightarrow> Inr t') = Inr t)
          ids ts \<longrightarrow>
      setTokenIds E ids this = (Inr (), this\<lparr>tokenIds := Some (map Some ts)\<rparr>)"
  proof (intro impI, elim conjE)
    assume unfrozen: "\<not> frozen this"
    assume "list_all2
      (\<lambda>x t. (case x of IdString s \<Rightarrow> TokenId_fromString E s | IdObject t' \<Rightarrow> Inr t') = Inr t) ids ts"
    then have "Array_map (\<lambda>x. case x of IdString s \<Rightarrow> TokenId_fromString E s | IdObject t' \<Rightarrow> Inr t') ids
        = Inr ts"
      by (rule Array_map_Inr_I)
    with unfrozen show "setTokenIds E ids this = (Inr (), this\<lparr>tokenIds := Some (map Some ts)\<rparr>)"
      by (simp add: setTokenIds_def requireNotFrozen_def clone_def)
  qed
  have acc: "\<not> frozen this \<and>
        (case a of IdString s \<Rightarrow> AccountId_fromString E s | IdObject x' \<Rightarrow> Inr x') = Inr x \<longrightarrow>
      setAccountId E a this = (Inr (), this\<lparr>accountId := Some x\<rparr>)"
    by (cases a) (simp_all add: setAccountId_def requireNotFrozen_def clone_def)
  have tok_fail: "fst (setTokenIds E ids this) \<noteq> Inr () \<longrightarrow> snd (setTokenIds E ids this) = this"
    by (simp add: setTokenIds_def requireNotFrozen_def split: sum.splits)
  have acc_fail: "fst (setAccountId E a this) \<noteq> Inr () \<longrightarrow> snd (setAccountId E a this) = this"
    by (simp add: setAccountId_def requireNotFrozen_def split: sum.splits)
  have g: "setGas String g c = (Inr (), c\<lparr>body := (body c)\<lparr>gas := Some (String g)\<rparr>\<rparr>)"
    by (simp add: setGas_def)
  have p: "tinybarToString amt = Inr digits \<longrightarrow>
        setPayableAmount tinybarToString amt c =
          (Inr (), c\<lparr>body := (body c)\<lparr>amount := Some digits\<rparr>\<rparr>)"
    by (simp add: setPayableAmount_def)
  have p_fail: "tinybarToString amt = Inl e \<longrightarrow> setPayableAmount tinybarToString amt c = (Inl e, c)"
    by (simp add: setPayableAmount_def)
  have f: "setFunction build newParams name params c =
        (Inr (), c\<lparr>body := (body c)
           \<lparr>functionparameters :=
              Some (build (case params of None \<Rightarrow> newParams | Some p \<Rightarrow> p) name)\<rparr>\<rparr>)"
    by (simp add: setFunction_def)
  have ci: "ContractId_toProto cid = Inr pc \<longrightarrow>
        setContractId ContractId_toProto cid c =
          (Inr (), c\<lparr>body := (body c)\<lparr>contractid := Some pc\<rparr>\<rparr>)"
    by (simp add: setContractId_def)
  have ci_fail: "ContractId_toProto cid = Inl e' \<longrightarrow>
        setContractId ContractId_toProto cid c = (Inl e', c)"
    by (simp add: setContractId_def)
  show ?thesis
    by (intro conjI) (rule frz tok acc tok_fail acc_fail g p p_fail f ci ci_fail)+
qed

text \<open>
  An instance: on a new transaction \<open>setTokenIds\<close> with a string and an object stores
  both ids; on a frozen one \<open>setAccountId\<close> fails and changes nothing; on the frozen
  contract call \<open>setPayableAmount\<close> stores the amount 5 and refuses a negative amount.
\<close>

theorem setters_frozen_check_witness:
  "setTokenIds exampleIds [IdString ''0.0.7'', IdObject 9] newDissociate =
     (Inr (), newDissociate\<lparr>tokenIds := Some [Some 7, Some 9]\<rparr>)
   \<and> setAccountId exampleIds (IdString ''0.0.3'') (newDissociate\<lparr>frozen := True\<rparr>) =
     (Inl FrozenTransactionError, newDissociate\<lparr>frozen := True\<rparr>)
   \<and> setPayableAmount exampleTinybarToString (False, ''5'') frozenContractCall =
     (Inr (), frozenContractCall\<lparr>body := (body frozenContractCall)\<lparr>amount := Some ''5''\<rparr>\<rparr>)
   \<and> setPayableAmount exampleTinybarToString (True, ''1'') frozenContractCall =
     (Inl TinybarValueError, frozenContractCall)"
proof -
  have unfrozen: "\<not> frozen newDissociate"
    by (simp add: newDissociate_def Transaction_new_def Transaction.defs TokenDissociateTransaction.defs)
  have parsed: "list_all2
      (\<lambda>x t. (case x of IdString s \<Rightarrow> TokenId_fromString exampleIds s | IdObject t' \<Rightarrow> Inr t') = Inr t)
      [IdString ''0.0.7'', IdObject 9] [7, 9]"
    by (simp add: exampleIds_def)
  have converts: "exampleTinybarToString (False, ''5'') = Inr ''5''"
    by (simp add: exampleTinybarToString_def)
  have refuses: "exampleTinybarToString (True, ''1'') = Inl TinybarValueError"
    by (simp add: exampleTinybarToString_def)
  note new = setters_frozen_check [where this = newDissociate and E = exampleIds
      and ids = "[IdString ''0.0.7'', IdObject 9]" and ts = "[7, 9]"]
  note frz = setters_frozen_check [where this = "newDissociate\<lparr>frozen := True\<rparr>" and E = exampleIds
      and a = "IdString ''0.0.3''"]
  note pay = setters_frozen_check [where c = frozenContractCall
      and tinybarToString = exampleTinybarToString and amt = "(False, ''5'')" and digits = "''5''"]
  note neg = setters_frozen_check [where c = frozenContractCall
      and tinybarToString = exampleTinybarToString and amt = "(True, ''1'')"
      and e = TinybarValueError]
  have "setTokenIds exampleIds [IdString ''0.0.7'', IdObject 9] newDissociate =
     (Inr (), newDissociate\<lparr>tokenIds := Some (map Some [7, 9])\<rparr>)"
    by (rule mp [OF new [THEN conjunct2, THEN conjunct1] conjI [OF unfrozen parsed]])
  then have a: "setTokenIds exampleIds [IdString ''0.0.7'', IdObject 9] newDissociate =
     (Inr (), newDissociate\<lparr>tokenIds := Some [Some 7, Some 9]\<rparr>)"
    by simp
  have "frozen (newDissociate\<lparr>frozen := True\<rparr>)" by simp
  from mp [OF frz [THEN conjunct1] this]
  have b: "setAccountId exampleIds (IdString ''0.0.3'') (newDissociate\<lparr>frozen := True\<rparr>) =
     (Inl FrozenTransactionError, newDissociate\<lparr>frozen := True\<rparr>)"
    by (rule conjunct2)
  have c: "setPayableAmount exampleTinybarToString (False, ''5'') frozenContractCall =
     (Inr (), frozenContractCall\<lparr>body := (body frozenContractCall)\<lparr>amount := Some ''5''\<rparr>\<rparr>)"
    by (rule mp [OF pay [THEN conjunct2, THEN conjunct2, THEN conjunct2, THEN conjunct2,
          THEN conjunct2, THEN conjunct2, THEN conjunct1] converts])
  have d: "setPayableAmount exampleTinybarToString (True, ''1'') frozenContractCall =
     (Inl TinybarValueError, frozenContractCall)"
    by (rule mp [OF neg [THEN conjunct2, THEN conjunct2, THEN conjunct2, THEN conjunct2,
          THEN conjunct2, THEN conjunct2, THEN conjunct2, THEN conjunct1] refuses])
  show ?thesis
    by (intro conjI) (rule a b c d)+
qed

text \<open>
  Claim C1 as the specification states it fails on \<open>ContractExecuteTransaction\<close>: after
  \<open>freeze\<close>, \<open>setGas\<close> does not fail with \<open>FrozenTransactionError\<close>; it succeeds and the
  gas of the body has changed. The gas 75000 is given by its decimal digits, on which
  \<open>String\<close> is the identity.
\<close>

theorem setGas_after_freeze_counterexample:
  "frozen frozenContractCall
   \<and> gas (body frozenContractCall) = None
   \<and> setGas (\<lambda>g. g) ''75000'' frozenContractCall \<noteq>
       (Inl (FrozenTransactionError :: (nat, nat) EntityId error), frozenContractCall)
   \<and> fst (setGas (\<lambda>g. g) ''75000'' frozenContractCall) = (Inr () :: (nat, nat) EntityId error + unit)
   \<and> gas (body (snd (setGas (\<lambda>g. g) ''75000'' frozenContractCall
         :: ((nat, nat) EntityId error + unit) \<times> _))) = Some ''75000''"
  by (simp add: frozenContractCall_def freeze_def ContractExecuteTransaction_new_def
        Transaction_new_def Transaction.defs ContractExecuteTransaction.defs setGas_def Let_def)

section \<open>Properties of ContractExecuteTransaction\<close>

text \<open>
  Claim C4. \<open>_doValidate\<close> appends \<open>".setContractId() required"\<close> to the list it is
  given exactly when the body has no contract id, and appends nothing else: a new
  transaction gets the message, one on which \<open>setContractId\<close> succeeded does not.
  \<open>execute\<close> fails with \<open>ValidationError\<close> exactly when the contract id is missing, and
  then no network call was made; otherwise its outcome and calls are those of the
  network phase.
\<close>

theorem doValidate_requires_contract_id:
  "(contractid (body this) = None \<longrightarrow>
      doValidate this errors = errors @ [''.setContractId() required''])
   \<and> (contractid (body this) \<noteq> None \<longrightarrow> doValidate this errors = errors)
   \<and> doValidate ContractExecuteTransaction_new errors = errors @ [''.setContractId() required'']
   \<and> (ContractId_toProto cid = Inr pc \<longrightarrow>
        doValidate (snd (setContractId ContractId_toProto cid this)) errors = errors)
   \<and> ((\<exists>errs. fst (ContractExecuteTransaction_execute network this) = Inl (ValidationError errs))
        \<longleftrightarrow> contractid (body this) = None)
   \<and> (contractid (body this) = None \<longrightarrow>
        ContractExecuteTransaction_execute network this =
          (Inl (ValidationError [''.setContractId() required'']), []))
   \<and> (contractid (body this) \<noteq> None \<longrightarrow>
        ContractExecuteTransaction_execute network this =
          (Inr (fst (network this)), snd (network this)))"
proof -
  have new: "contractid (body ContractExecuteTransaction_new) = None"
    by (simp add: ContractExecuteTransaction_new_def Transaction_new_def Transaction.defs
          ContractExecuteTransaction.defs)
  have set_id: "ContractId_toProto cid = Inr pc \<longrightarrow>
        doValidate (snd (setContractId ContractId_toProto cid this)) errors = errors"
    by (simp add: setContractId_def doValidate_def hasContractid_def)
  have ex: "(\<exists>errs. fst (ContractExecuteTransaction_execute network this) = Inl (ValidationError errs))
        \<longleftrightarrow> contractid (body this) = None"
    by (auto simp: ContractExecuteTransaction_execute_def doValidate_def hasContractid_def
          split: prod.splits)
  have ex_none: "contractid (body this) = None \<longrightarrow>
        ContractExecuteTransaction_execute network this =
          (Inl (ValidationError [''.setContractId() required'']), [])"
    by (simp add: ContractExecuteTransaction_execute_def doValidate_def hasContractid_def)
  have ex_some: "contractid (body this) \<noteq> None \<longrightarrow>
        ContractExecuteTransaction_execute network this =
          (Inr (fst (network this)), snd (network this))"
    by (auto simp: ContractExecuteTransaction_execute_def doValidate_def hasContractid_def
          split: prod.splits)
  have d1: "contractid (body this) = None \<longrightarrow>
      doValidate this errors = errors @ [''.setContractId() required'']"
    by (simp add: doValidate_def hasContractid_def)
  have d2: "contractid (body this) \<noteq> None \<longrightarrow> doValidate this errors = errors"
    by (simp add: doValidate_def hasContractid_def)
  have d3: "doValidate ContractExecuteTransaction_new errors = errors @ [''.setContractId() required'']"
    using new by (simp add: doValidate_def hasContractid_def)
  show ?thesis
    by (intro conjI) (rule d1 d2 d3 set_id ex ex_none ex_some)+
qed

text \<open>
  An instance: a new contract call fails validation before the network phase runs;
  with contract id 5 the network phase gives the outcome.
\<close>

theorem doValidate_requires_contract_id_witness:
  "doValidate exampleCall [''earlier''] = [''earlier'', ''.setContractId() required'']
   \<and> ContractExecuteTransaction_execute (\<lambda>t. (''SUCCESS'', [''node 3''])) exampleCall =
        (Inl (ValidationError [''.setContractId() required''] :: (nat, nat) EntityId error), [])
   \<and> doValidate (exampleCall\<lparr>body := (body exampleCall)\<lparr>contractid := Some 5\<rparr>\<rparr>) [''earlier''] = [''earlier'']
   \<and> ContractExecuteTransaction_execute (\<lambda>t. (''SUCCESS'', [''node 3'']))
        (exampleCall\<lparr>body := (body exampleCall)\<lparr>contractid := Some 5\<rparr>\<rparr>) =
        (Inr ''SUCCESS'' :: (nat, nat) EntityId error + string, [''node 3''])"
proof -
  have none: "contractid (body exampleCall) = None"
    by (simp add: exampleCall_def ContractExecuteTransaction_new_def Transaction_new_def
          Transaction.defs ContractExecuteTransaction.defs)
  have some: "contractid (body (exampleCall\<lparr>body := (body exampleCall)\<lparr>contractid := Some 5\<rparr>\<rparr>)) \<noteq> None"
    by simp
  note a = doValidate_requires_contract_id [of exampleCall "[''earlier'']" "\<lambda>c. Inr c" 0 0
      "\<lambda>t. (''SUCCESS'', [''node 3''])"]
  note b = doValidate_requires_contract_id
      [of "exampleCall\<lparr>body := (body exampleCall)\<lparr>contractid := Some 5\<rparr>\<rparr>" "[''earlier'']"
        "\<lambda>c. Inr c" 0 0 "\<lambda>t. (''SUCCESS'', [''node 3''])"]
  have v1: "doValidate exampleCall [''earlier''] = [''earlier'', ''.setContractId() required'']"
    using mp [OF a [THEN conjunct1] none] by simp
  have e1: "ContractExecuteTransaction_execute (\<lambda>t. (''SUCCESS'', [''node 3''])) exampleCall =
        (Inl (ValidationError [''.setContractId() required''] :: (nat, nat) EntityId error), [])"
    by (rule mp [OF a [THEN conjunct2, THEN conjunct2, THEN conjunct2, THEN conjunct2,
          THEN conjunct2, THEN conjunct1] none])
  have v2: "doValidate (exampleCall\<lparr>body := (body exampleCall)\<lparr>contractid := Some 5\<rparr>\<rparr>) [''earlier'']
      = [''earlier'']"
    by (rule mp [OF b [THEN conjunct2, THEN conjunct1] some])
  have "ContractExecuteTransaction_execute (\<lambda>t. (''SUCCESS'', [''node 3'']))
        (exampleCall\<lparr>body := (body exampleCall)\<lparr>contractid := Some 5\<rparr>\<rparr>) =
        (Inr (fst (''SUCCESS'', [''node 3''])) :: (nat, nat) EntityId error + string,
         snd (''SUCCESS'', [''node 3'']))"
    by (rule mp [OF b [THEN conjunct2, THEN conjunct2, THEN conjunct2, THEN conjunct2,
          THEN conjunct2, THEN conjunct2] some])
  then have e2: "ContractExecuteTransaction_execute (\<lambda>t. (''SUCCESS'', [''node 3'']))
        (exampleCall\<lparr>body := (body exampleCall)\<lparr>contractid := Some 5\<rparr>\<rparr>) =
        (Inr ''SUCCESS'' :: (nat, nat) EntityId error + string, [''node 3''])"
    by simp
  show ?thesis
    by (intro conjI) (rule v1 e1 v2 e2)+
qed

text \<open>
  Claim C9. With \<open>params\<close> \<open>null\<close> or \<open>undefined\<close>, \<open>setFunction\<close> does what it does with
  a new, empty \<open>ContractFunctionParams\<close>: it succeeds and stores the parameters built
  from the name, whatever the name.
\<close>

theorem setFunction_null_params:
  "setFunction build newParams name None this = setFunction build newParams name (Some newParams) this
   \<and> setFunction build newParams name None this =
       (Inr (), this\<lparr>body := (body this)\<lparr>functionparameters := Some (build newParams name)\<rparr>\<rparr>)"
  by (simp add: setFunction_def)

section \<open>Properties of TokenDissociateTransaction\<close>

text \<open>
  Claim C7. \<open>[symbols.execute]\<close> makes one call on the channel, the method
  \<open>dissociateTokens\<close> of the token service with the request it was given, returns the
  acknowledgement of that call unchanged, and leaves the transport as it was: the log
  grows by that one entry.
\<close>

theorem execute_sends_once:
  "execute this channel request =
     (respond channel (sent channel) ''token'' ''dissociateTokens'' request,
      channel\<lparr>sent := sent channel @ [(''token'', ''dissociateTokens'', request)]\<rparr>)
   \<and> sent (snd (execute this channel request)) =
        sent channel @ [(''token'', ''dissociateTokens'', request)]
   \<and> length (sent (snd (execute this channel request))) = Suc (length (sent channel))
   \<and> respond (snd (execute this channel request)) = respond channel"
  by (simp add: execute_def Channel_call_def)

text \<open>
  An instance: on a channel that has carried one request, the call is the second entry
  of the log and the acknowledgement is the transport's.
\<close>

theorem execute_sends_once_witness:
  "execute newDissociate exampleChannel ''request'' =
     (1, exampleChannel\<lparr>sent := [(''crypto'', ''transfer'', ''earlier''),
                                  (''token'', ''dissociateTokens'', ''request'')]\<rparr>)"
  using execute_sends_once [of newDissociate exampleChannel "''request''"]
  by (simp add: exampleChannel_def)


lemma Array_map_IdObject:
  "Array_map (\<lambda>x. case x of IdString s \<Rightarrow> parse s | IdObject t \<Rightarrow> Inr t)
     (map (\<lambda>p. IdObject (g p)) ps) = Inr (map g ps)"
  by (induction ps) simp_all

lemma constructor_from_wire:
  "TokenDissociateTransaction_new E
     (Some \<lparr>props_tokenIds =
               (case toks of None \<Rightarrow> None
                | Some ts \<Rightarrow> Some (map (\<lambda>token. IdObject (TokenId_fromProtobuf E token)) ts)),
            props_accountId =
               (case acc of None \<Rightarrow> None
                | Some a \<Rightarrow> Some (IdObject (AccountId_fromProtobuf E a)))\<rparr>) =
   Inr (Transaction.extend Transaction_new
          (TokenDissociateTransaction.fields
             (map_option (map (\<lambda>p. Some (TokenId_fromProtobuf E p))) toks)
             (map_option (AccountId_fromProtobuf E) acc) (Hbar 5)))"
  by (cases toks; cases acc)
     (simp_all add: TokenDissociateTransaction_new_def setTokenIds_def setAccountId_def
        requireNotFrozen_def Array_map_IdObject clone_def Transaction_new_def Transaction.defs
        TokenDissociateTransaction.defs)

lemma fromProtobuf_first_body:
  "tokenDissociate b = Some d \<Longrightarrow>
   fromProtobuf E ts ss ids nodes (b # rest) =
     Inr ((Transaction.extend Transaction_new
          (TokenDissociateTransaction.fields
             (map_option (map (\<lambda>p. Some (TokenId_fromProtobuf E p))) (tokens d))
             (map_option (AccountId_fromProtobuf E) (account d)) (Hbar 5)))
          \<lparr>transactionIds := ids, nodeIds := nodes, signatures := [], frozen := True,
                  maxTransactionFee := transactionFee b, bodyBytes := b # rest\<rparr>)"
  by (simp add: fromProtobuf_def constructor_from_wire fromProtobufTransactions_def)

lemma constructor_fee:
  "TokenDissociateTransaction_new E props = Inr tx \<Longrightarrow> defaultMaxTransactionFee tx = Hbar 5"
  by (auto simp: TokenDissociateTransaction_new_def Transaction_new_def Transaction.defs
        TokenDissociateTransaction.defs setTokenIds_def setAccountId_def requireNotFrozen_def Let_def
      split: option.splits sum.splits prod.splits)

text \<open>
  Claim C10. A transaction that the constructor builds has a default maximum
  transaction fee of 5 hbar, with any \<open>props\<close> or none, and so has one rebuilt by
  \<open>fromProtobuf\<close>. Without \<open>props\<close>, or with empty \<open>props\<close>, the constructor succeeds and
  the token ids and the account id are \<open>null\<close>.
\<close>

theorem constructor_default_fee:
  "(TokenDissociateTransaction_new E props = Inr tx \<longrightarrow> defaultMaxTransactionFee tx = Hbar 5)
   \<and> (fromProtobuf E ts ss ids nodes bodies = Inr tx' \<longrightarrow> defaultMaxTransactionFee tx' = Hbar 5)
   \<and> (\<exists>new. TokenDissociateTransaction_new E None = Inr new
         \<and> TokenDissociateTransaction_new E (Some \<lparr>props_tokenIds = None, props_accountId = None\<rparr>) = Inr new
         \<and> tokenIds new = None \<and> accountId new = None \<and> defaultMaxTransactionFee new = Hbar 5)"
proof -
  have a: "TokenDissociateTransaction_new E props = Inr tx \<longrightarrow> defaultMaxTransactionFee tx = Hbar 5"
    using constructor_fee by blast
  have b: "fromProtobuf E ts ss ids nodes bodies = Inr tx' \<longrightarrow> defaultMaxTransactionFee tx' = Hbar 5"
  proof
    assume r: "fromProtobuf E ts ss ids nodes bodies = Inr tx'"
    then obtain b rest d where "bodies = b # rest" "tokenDissociate b = Some d"
      by (auto simp: fromProtobuf_def split: list.splits option.splits)
    with r fromProtobuf_first_body [of b d E ts ss ids nodes rest]
    show "defaultMaxTransactionFee tx' = Hbar 5"
      by (auto simp: Transaction.defs TokenDissociateTransaction.defs)
  qed
  have c: "\<exists>new. TokenDissociateTransaction_new E None = Inr new
         \<and> TokenDissociateTransaction_new E (Some \<lparr>props_tokenIds = None, props_accountId = None\<rparr>) = Inr new
         \<and> tokenIds new = None \<and> accountId new = None \<and> defaultMaxTransactionFee new = Hbar 5"
    by (simp add: TokenDissociateTransaction_new_def Transaction_new_def Transaction.defs
          TokenDissociateTransaction.defs)
  show ?thesis
    by (intro conjI) (rule a b c)+
qed

text \<open>An instance with both properties given.\<close>

theorem constructor_default_fee_witness:
  "TokenDissociateTransaction_new exampleIds
      (Some \<lparr>props_tokenIds = Some [IdString ''0.0.7'', IdObject 9],
             props_accountId = Some (IdString ''0.0.3'')\<rparr>) =
     Inr (newDissociate\<lparr>tokenIds := Some [Some 7, Some 9], accountId := Some 3\<rparr>)
   \<and> defaultMaxTransactionFee (newDissociate\<lparr>tokenIds := Some [Some 7, Some 9], accountId := Some 3\<rparr>)
       = Hbar 5"
proof -
  have built: "TokenDissociateTransaction_new exampleIds
      (Some \<lparr>props_tokenIds = Some [IdString ''0.0.7'', IdObject 9],
             props_accountId = Some (IdString ''0.0.3'')\<rparr>) =
     Inr (newDissociate\<lparr>tokenIds := Some [Some 7, Some 9], accountId := Some 3\<rparr>)"
    by (simp add: TokenDissociateTransaction_new_def newDissociate_def setTokenIds_def
          setAccountId_def requireNotFrozen_def exampleIds_def clone_def Transaction_new_def
          Transaction.defs TokenDissociateTransaction.defs)
  from mp [OF constructor_default_fee [THEN conjunct1] built] built
  show ?thesis by simp
qed

section \<open>Properties of freeze\<close>

text \<open>
  Claim C6. \<open>freeze\<close> with an empty node list and no default node list of the client, on
  a transaction that is not frozen, fails with \<open>NoNodeIdsAvailable\<close> and leaves the
  transaction exactly as it was: not frozen, and no node id, transaction id, fee or
  body assigned. On any transaction such a call fails and changes nothing.
\<close>

theorem freeze_without_nodes:
  "(\<not> frozen this \<longrightarrow>
      freeze makeBodies [] [] transactionId defaultFee this = (Inl NoNodeIdsAvailable, this)
      \<and> \<not> frozen (snd (freeze makeBodies [] [] transactionId defaultFee this)))
   \<and> snd (freeze makeBodies [] [] transactionId defaultFee this) = this
   \<and> (\<exists>e. fst (freeze makeBodies [] [] transactionId defaultFee this) = Inl e)"
  by (simp add: freeze_def)

text \<open>An instance on a new transaction.\<close>

theorem freeze_without_nodes_witness:
  "freeze (makeTransactionBodies exampleIds) [] [] (TransactionId 2 0) (Hbar 5) newDissociate =
     (Inl NoNodeIdsAvailable, newDissociate)
   \<and> \<not> frozen newDissociate \<and> nodeIds newDissociate = [] \<and> transactionIds newDissociate = []
   \<and> bodyBytes newDissociate = []"
proof -
  have unfrozen: "\<not> frozen newDissociate"
    by (simp add: newDissociate_def Transaction_new_def Transaction.defs TokenDissociateTransaction.defs)
  have "freeze (makeTransactionBodies exampleIds) [] [] (TransactionId 2 0) (Hbar 5) newDissociate =
     (Inl NoNodeIdsAvailable, newDissociate)"
    using mp [OF freeze_without_nodes [THEN conjunct1] unfrozen] by (rule conjunct1)
  then show ?thesis
    by (simp add: newDissociate_def Transaction_new_def Transaction.defs TokenDissociateTransaction.defs)
qed


section \<open>Properties of validateChecksums\<close>

lemma checksumOutcome_Cons:
  "checksumOutcome m c (e # es) =
     (if m c e then (case checksumOutcome m c es of (r, seen) \<Rightarrow> (r, e # seen))
      else (Inl (InvalidChecksumError e), [e]))"
  by (simp add: checksumOutcome_def split: option.splits)

lemma validateTokenIds_outcome:
  "validateTokenIds m c ts seen =
     (case checksumOutcome m c
             (concat (map (\<lambda>tokenId. case tokenId of None \<Rightarrow> [] | Some t \<Rightarrow> [TokenEntity t]) ts)) of
        (r, called) \<Rightarrow> (r, seen @ called))"
proof (induction ts arbitrary: seen)
  case Nil
  show ?case by (simp add: checksumOutcome_def)
next
  case (Cons tokenId rest)
  show ?case
  proof (cases tokenId)
    case None
    then show ?thesis using Cons.IH by simp
  next
    case (Some t)
    then show ?thesis
      using Cons.IH [of "seen @ [TokenEntity t]"]
      by (simp add: checksumOutcome_Cons validateChecksum_def split: prod.splits)
  qed
qed

lemma validateChecksums_outcome:
  "validateChecksums m c this = checksumOutcome m c (embeddedEntityIds this)"
  by (cases "accountId this")
     (auto simp: validateChecksums_def embeddedEntityIds_def validateTokenIds_outcome
        checksumOutcome_Cons validateChecksum_def split: prod.splits)

lemma checksumOutcome_fails_iff:
  "(\<exists>e. fst (checksumOutcome m c es) = Inl e) \<longleftrightarrow> (\<exists>e\<in>set es. \<not> m c e)"
proof (cases "find (\<lambda>e. \<not> m c e) es")
  case None
  then have "fst (checksumOutcome m c es) = Inr ()" by (simp add: checksumOutcome_def)
  moreover from None have "\<not> (\<exists>e\<in>set es. \<not> m c e)" by (auto simp: find_None_iff)
  ultimately show ?thesis by simp
next
  case (Some bad)
  then have "find (\<lambda>e. \<not> m c e) es \<noteq> None" by simp
  then have "\<exists>e\<in>set es. \<not> m c e" by (auto simp: find_None_iff)
  with Some show ?thesis by (simp add: checksumOutcome_def)
qed

lemma find_Some_set: "find P xs = Some x \<Longrightarrow> x \<in> set xs \<and> P x"
  by (induction xs) (auto split: if_splits)

lemma checksumOutcome_called_subset: "set (snd (checksumOutcome m c es)) \<subseteq> set es"
  by (auto simp: checksumOutcome_def split: option.splits dest: set_takeWhileD find_Some_set)

lemma checksumOutcome_names_first:
  "fst (checksumOutcome m c es) = Inl e \<Longrightarrow>
   (\<exists>bad. e = InvalidChecksumError bad \<and> bad \<in> set es \<and> \<not> m c bad \<and> find (\<lambda>e. \<not> m c e) es = Some bad)"
  by (auto simp: checksumOutcome_def split: option.splits dest: find_Some_set)

text \<open>
  Claim C3. \<open>validateChecksums\<close> calls checksum validation, for the client it is given,
  on the account id when it is not \<open>null\<close> and then on the token ids that are not \<open>null\<close>,
  in that order, up to the first id that fails, and on nothing else; when all pass,
  every one of them was validated. It fails exactly when one of these ids fails, with
  \<open>InvalidChecksumError\<close> naming the first that does, and it succeeds without a call
  when the account id and the token ids are both \<open>null\<close>.
\<close>

theorem validateChecksums_walks_embedded_ids:
  "validateChecksums matches client this = checksumOutcome matches client (embeddedEntityIds this)
   \<and> set (snd (validateChecksums matches client this)) \<subseteq> set (embeddedEntityIds this)
   \<and> ((\<exists>e. fst (validateChecksums matches client this) = Inl e)
        \<longleftrightarrow> (\<exists>ident\<in>set (embeddedEntityIds this). \<not> matches client ident))
   \<and> (\<forall>e. fst (validateChecksums matches client this) = Inl e \<longrightarrow>
         (\<exists>bad\<in>set (embeddedEntityIds this). \<not> matches client bad \<and> e = InvalidChecksumError bad))
   \<and> (fst (validateChecksums matches client this) = Inr () \<longrightarrow>
         snd (validateChecksums matches client this) = embeddedEntityIds this)
   \<and> (accountId this = None \<and> tokenIds this = None \<longrightarrow>
         validateChecksums matches client this = (Inr (), []))"
proof -
  have eq: "validateChecksums matches client this = checksumOutcome matches client (embeddedEntityIds this)"
    by (rule validateChecksums_outcome)
  have sub: "set (snd (validateChecksums matches client this)) \<subseteq> set (embeddedEntityIds this)"
    unfolding eq by (rule checksumOutcome_called_subset)
  have iff: "(\<exists>e. fst (validateChecksums matches client this) = Inl e)
        \<longleftrightarrow> (\<exists>ident\<in>set (embeddedEntityIds this). \<not> matches client ident)"
    unfolding eq by (rule checksumOutcome_fails_iff)
  have names: "\<forall>e. fst (validateChecksums matches client this) = Inl e \<longrightarrow>
         (\<exists>bad\<in>set (embeddedEntityIds this). \<not> matches client bad \<and> e = InvalidChecksumError bad)"
    unfolding eq using checksumOutcome_names_first [of matches client "embeddedEntityIds this"] by blast
  have all: "fst (validateChecksums matches client this) = Inr () \<longrightarrow>
         snd (validateChecksums matches client this) = embeddedEntityIds this"
    unfolding eq by (simp add: checksumOutcome_def split: option.splits)
  have none: "accountId this = None \<and> tokenIds this = None \<longrightarrow>
         validateChecksums matches client this = (Inr (), [])"
    by (simp add: validateChecksums_def)
  from eq sub iff names all none show ?thesis by blast
qed


text \<open>
  An instance: account 3 and the tokens 7, \<open>null\<close>, 8, 9, where token 8 has a bad checksum;
  and a new transaction, on which nothing is validated.
\<close>

theorem validateChecksums_walks_embedded_ids_witness:
  "validateChecksums exampleMatches ''mainnet'' checkedDissociate =
     (Inl (InvalidChecksumError (TokenEntity 8)), [AccountEntity 3, TokenEntity 7, TokenEntity 8])
   \<and> embeddedEntityIds checkedDissociate = [AccountEntity 3, TokenEntity 7, TokenEntity 8, TokenEntity 9]
   \<and> validateChecksums exampleMatches ''mainnet'' newDissociate = (Inr (), [])"
proof -
  have ids: "embeddedEntityIds checkedDissociate =
      [AccountEntity 3, TokenEntity 7, TokenEntity 8, TokenEntity 9]"
    by (simp add: embeddedEntityIds_def checkedDissociate_def)
  have "validateChecksums exampleMatches ''mainnet'' checkedDissociate =
      checksumOutcome exampleMatches ''mainnet'' (embeddedEntityIds checkedDissociate)"
    by (rule validateChecksums_walks_embedded_ids [THEN conjunct1])
  then have bad: "validateChecksums exampleMatches ''mainnet'' checkedDissociate =
     (Inl (InvalidChecksumError (TokenEntity 8)), [AccountEntity 3, TokenEntity 7, TokenEntity 8])"
    by (simp add: ids checksumOutcome_def exampleMatches_def)
  have nulls: "accountId newDissociate = None \<and> tokenIds newDissociate = None"
    by (simp add: newDissociate_def Transaction_new_def Transaction.defs TokenDissociateTransaction.defs)
  have good: "validateChecksums exampleMatches ''mainnet'' newDissociate = (Inr (), [])"
    by (rule mp [OF validateChecksums_walks_embedded_ids
          [THEN conjunct2, THEN conjunct2, THEN conjunct2, THEN conjunct2, THEN conjunct2] nulls])
  show ?thesis
    by (intro conjI) (rule bad ids good)+
qed

section \<open>Properties of fromProtobuf and the registry\<close>

lemma wiredDissociate_eq:
  "wiredDissociate =
     newDissociate\<lparr>tokenIds := Some [Some 7, Some 9], accountId := Some 3,
       nodeIds := [3, 4], transactionIds := [TransactionId 2 0], maxTransactionFee := Some (Hbar 5),
       bodyBytes :=
         [\<lparr>transactionID = TransactionId 2 0, nodeAccountID = 3, transactionFee = Some (Hbar 5),
           data = Some ''tokenDissociate'',
           tokenDissociate = Some \<lparr>tokens = Some [7, 9], account = Some 3\<rparr>\<rparr>,
          \<lparr>transactionID = TransactionId 2 0, nodeAccountID = 4, transactionFee = Some (Hbar 5),
           data = Some ''tokenDissociate'',
           tokenDissociate = Some \<lparr>tokens = Some [7, 9], account = Some 3\<rparr>\<rparr>],
       frozen := True\<rparr>"
  by (simp add: wiredDissociate_def freeze_def newDissociate_def Transaction_new_def Transaction.defs
        TokenDissociateTransaction.defs makeTransactionBodies_def makeTransactionData_def
        getTransactionDataCase_def exampleIds_def Let_def)

lemma Array_map_toProtobuf:
  "Array_map (\<lambda>tokenId. case tokenId of None \<Rightarrow> Inl e | Some t \<Rightarrow> Inr (g t))
     (map (\<lambda>p. Some (h p)) ps) = Inr (map (\<lambda>p. g (h p)) ps)"
  by (induction ps) simp_all

lemma makeTransactionData_of_wire:
  assumes tok: "\<forall>p. TokenId_toProtobuf E (TokenId_fromProtobuf E p) = p"
    and acc: "\<forall>p. AccountId_toProtobuf E (AccountId_fromProtobuf E p) = p"
    and t: "tokenIds tx = map_option (map (\<lambda>p. Some (TokenId_fromProtobuf E p))) (tokens d)"
    and a: "accountId tx = map_option (AccountId_fromProtobuf E) (account d)"
  shows "makeTransactionData E tx = Inr d"
proof -
  have "makeTransactionData E tx = Inr \<lparr>tokens = tokens d, account = account d\<rparr>"
    by (cases "tokens d"; cases "account d")
       (simp_all add: makeTransactionData_def t a Array_map_toProtobuf tok acc)
  then show ?thesis by simp
qed

lemma makeTransactionBodies_base:
  "makeTransactionBodies E (tx\<lparr>bodyBytes := bs, frozen := f\<rparr>) = makeTransactionBodies E tx"
  by (simp add: makeTransactionBodies_def makeTransactionData_def getTransactionDataCase_def
        cong: sum.case_cong option.case_cong)

lemma makeTransactionBodies_nonempty:
  assumes "makeTransactionBodies E tx = Inr bs" "transactionIds tx \<noteq> []" "nodeIds tx \<noteq> []"
  shows "bs \<noteq> []"
proof -
  from assms(2) obtain t trest where t: "transactionIds tx = t # trest"
    by (cases "transactionIds tx") auto
  from assms(3) obtain n nrest where n: "nodeIds tx = n # nrest"
    by (cases "nodeIds tx") auto
  from assms(1) show ?thesis
    by (auto simp: makeTransactionBodies_def t n split: sum.splits)
qed

lemma freeze_wireConsistent:
  assumes "freeze (makeTransactionBodies E) callerNodeIds clientNodeIds txid fee tx0 = (Inr (), tx)"
  shows "wireConsistent E tx \<and> tokenIds tx = tokenIds tx0 \<and> accountId tx = accountId tx0
         \<and> signatures tx = signatures tx0"
proof -
  define nodes where "nodes = (if callerNodeIds \<noteq> [] then callerNodeIds else clientNodeIds)"
  define assigned where "assigned = tx0
                \<lparr>nodeIds := nodes,
                 transactionIds :=
                   (if transactionIds tx0 = [] then [txid] else transactionIds tx0),
                 maxTransactionFee :=
                   (case maxTransactionFee tx0 of None \<Rightarrow> Some fee | Some fee' \<Rightarrow> Some fee')\<rparr>"
  from assms have nodes: "nodes \<noteq> []"
    by (auto simp: freeze_def Let_def nodes_def split: if_splits)
  from assms obtain bs where
    bs: "makeTransactionBodies E assigned = Inr bs" and
    tx: "tx = assigned\<lparr>bodyBytes := bs, frozen := True\<rparr>"
    by (auto simp: freeze_def Let_def nodes_def assigned_def split: if_splits sum.splits)
  have "bs \<noteq> []"
    by (rule makeTransactionBodies_nonempty [OF bs]) (simp_all add: assigned_def nodes)
  then show ?thesis
    by (simp add: wireConsistent_def tx makeTransactionBodies_base bs) (simp add: assigned_def)
qed

lemma fromProtobuf_rebuilds_payload:
  assumes tok: "\<forall>p. TokenId_toProtobuf E (TokenId_fromProtobuf E p) = p"
    and acc: "\<forall>p. AccountId_toProtobuf E (AccountId_fromProtobuf E p) = p"
    and first: "tokenDissociate b = Some d"
  shows "\<exists>tx. fromProtobuf E ts ss ids nodes (b # rest) = Inr tx
         \<and> makeTransactionData E tx = Inr d
         \<and> transactionIds tx = ids \<and> nodeIds tx = nodes \<and> signatures tx = [] \<and> frozen tx
         \<and> maxTransactionFee tx = transactionFee b \<and> bodyBytes tx = b # rest"
proof -
  let ?tx = "(Transaction.extend Transaction_new
        (TokenDissociateTransaction.fields
           (map_option (map (\<lambda>p. Some (TokenId_fromProtobuf E p))) (tokens d))
           (map_option (AccountId_fromProtobuf E) (account d)) (Hbar 5)))
        \<lparr>transactionIds := ids, nodeIds := nodes, signatures := [], frozen := True,
                maxTransactionFee := transactionFee b, bodyBytes := b # rest\<rparr>"
  have built: "fromProtobuf E ts ss ids nodes (b # rest) = Inr ?tx"
    by (rule fromProtobuf_first_body [OF first])
  have "makeTransactionData E ?tx = Inr d"
    by (rule makeTransactionData_of_wire [OF tok acc])
       (simp_all add: Transaction.defs TokenDissociateTransaction.defs)
  with built show ?thesis
    by (simp add: Transaction.defs TokenDissociateTransaction.defs)
qed

lemma wiredDissociate_frozen_by_freeze:
  "freeze (makeTransactionBodies exampleIds) [3, 4] [] (TransactionId 2 0) (Hbar 5)
      (newDissociate\<lparr>tokenIds := Some [Some 7, Some 9], accountId := Some 3\<rparr>)
   = (Inr (), wiredDissociate)"
  by (simp add: wiredDissociate_eq)
     (simp add: freeze_def newDissociate_def Transaction_new_def Transaction.defs
        TokenDissociateTransaction.defs makeTransactionBodies_def makeTransactionData_def
        getTransactionDataCase_def exampleIds_def Let_def)

lemma wiredDissociate_consistent:
  "wireConsistent exampleIds wiredDissociate \<and> signatures wiredDissociate = []"
  using freeze_wireConsistent [OF wiredDissociate_frozen_by_freeze]
  by (simp add: newDissociate_def Transaction_new_def Transaction.defs TokenDissociateTransaction.defs)





text \<open>
  Claim C8. \<open>fromProtobuf\<close> reads the first body only: two calls whose body lists agree at
  index 0 (both empty, or with the same first body) give the same token ids and account
  id, or the same error, whatever the other bodies and the other four arguments are. The
  payload is the projection of \<open>bodies[0].tokenDissociate\<close>: each token and the account
  converted from its wire form, and \<open>null\<close> for an absent field. Without a first body, or
  with a first body of another kind, the call throws a \<open>TypeError\<close>.
\<close>

theorem fromProtobuf_reads_first_body:
  "(take 1 bodies = take 1 bodies' \<longrightarrow>
      map_sum id (\<lambda>tx. (tokenIds tx, accountId tx)) (fromProtobuf E ts ss ids nodes bodies) =
      map_sum id (\<lambda>tx. (tokenIds tx, accountId tx)) (fromProtobuf E ts' ss' ids' nodes' bodies'))
   \<and> (tokenDissociate b = Some d \<longrightarrow>
        (\<exists>tx. fromProtobuf E ts ss ids nodes (b # rest) = Inr tx
           \<and> tokenIds tx = map_option (map (\<lambda>p. Some (TokenId_fromProtobuf E p))) (tokens d)
           \<and> accountId tx = map_option (AccountId_fromProtobuf E) (account d)))
   \<and> (tokenDissociate b = None \<longrightarrow> fromProtobuf E ts ss ids nodes (b # rest) = Inl TypeError)
   \<and> fromProtobuf E ts ss ids nodes [] = Inl TypeError"
proof -
  have some: "\<And>b d rest ts ss ids nodes. tokenDissociate b = Some d \<Longrightarrow>
      map_sum id (\<lambda>tx. (tokenIds tx, accountId tx)) (fromProtobuf E ts ss ids nodes (b # rest)) =
      Inr (map_option (map (\<lambda>p. Some (TokenId_fromProtobuf E p))) (tokens d),
           map_option (AccountId_fromProtobuf E) (account d))"
    by (simp add: fromProtobuf_first_body Transaction.defs TokenDissociateTransaction.defs)
  have none: "\<And>b rest ts ss ids nodes. tokenDissociate b = None \<Longrightarrow>
      fromProtobuf E ts ss ids nodes (b # rest) = Inl TypeError"
    by (simp add: fromProtobuf_def)
  have nil: "\<And>ts ss ids nodes. fromProtobuf E ts ss ids nodes [] = Inl TypeError"
    by (simp add: fromProtobuf_def)
  have agree: "take 1 bodies = take 1 bodies' \<longrightarrow>
      map_sum id (\<lambda>tx. (tokenIds tx, accountId tx)) (fromProtobuf E ts ss ids nodes bodies) =
      map_sum id (\<lambda>tx. (tokenIds tx, accountId tx)) (fromProtobuf E ts' ss' ids' nodes' bodies')"
  proof
    assume same: "take 1 bodies = take 1 bodies'"
    show "map_sum id (\<lambda>tx. (tokenIds tx, accountId tx)) (fromProtobuf E ts ss ids nodes bodies) =
      map_sum id (\<lambda>tx. (tokenIds tx, accountId tx)) (fromProtobuf E ts' ss' ids' nodes' bodies')"
    proof (cases bodies)
      case Nil
      with same have "bodies' = []" by (cases bodies') simp_all
      with Nil show ?thesis by (simp add: nil)
    next
      case (Cons b rest)
      with same obtain rest' where cons': "bodies' = b # rest'" by (cases bodies') simp_all
      show ?thesis
      proof (cases "tokenDissociate b")
        case None
        then show ?thesis by (simp add: Cons cons' none)
      next
        case (Some d)
        then show ?thesis by (simp add: Cons cons' some)
      qed
    qed
  qed
  have proj: "tokenDissociate b = Some d \<longrightarrow>
        (\<exists>tx. fromProtobuf E ts ss ids nodes (b # rest) = Inr tx
           \<and> tokenIds tx = map_option (map (\<lambda>p. Some (TokenId_fromProtobuf E p))) (tokens d)
           \<and> accountId tx = map_option (AccountId_fromProtobuf E) (account d))"
    by (simp add: fromProtobuf_first_body Transaction.defs TokenDissociateTransaction.defs)
  have none': "tokenDissociate b = None \<longrightarrow> fromProtobuf E ts ss ids nodes (b # rest) = Inl TypeError"
    by (simp add: none)
  show ?thesis
    by (intro conjI) (rule agree proj none' nil)+
qed

text \<open>An instance: one body, and the same body followed by one of another kind.\<close>

theorem fromProtobuf_reads_first_body_witness:
  "map_sum id (\<lambda>tx. (tokenIds tx, accountId tx))
      (fromProtobuf exampleIds [''t''] [''s''] [TransactionId 2 0] [3] [exampleBody]) =
   map_sum id (\<lambda>tx. (tokenIds tx, accountId tx))
      (fromProtobuf exampleIds ([] :: string list) ([] :: string list) [] [4]
         [exampleBody, exampleBody\<lparr>tokenDissociate := None\<rparr>])
   \<and> (\<exists>tx. fromProtobuf exampleIds [''t''] [''s''] [TransactionId 2 0] [3] [exampleBody] = Inr tx
         \<and> tokenIds tx = Some [Some 7, Some 9] \<and> accountId tx = None)"
proof -
  note inst = fromProtobuf_reads_first_body [of "[exampleBody]"
      "[exampleBody, exampleBody\<lparr>tokenDissociate := None\<rparr>]" exampleIds
      "[''t'']" "[''s'']" "[TransactionId 2 0]" "[3]" "[] :: string list" "[] :: string list" "[]" "[4]"
      exampleBody "\<lparr>tokens = Some [7, 9], account = None\<rparr>" "[]"]
  have same: "take 1 [exampleBody] = take 1 [exampleBody, exampleBody\<lparr>tokenDissociate := None\<rparr>]"
    by simp
  have d: "tokenDissociate exampleBody = Some \<lparr>tokens = Some [7, 9], account = None\<rparr>"
    by (simp add: exampleBody_def)
  have a: "map_sum id (\<lambda>tx. (tokenIds tx, accountId tx))
      (fromProtobuf exampleIds [''t''] [''s''] [TransactionId 2 0] [3] [exampleBody]) =
   map_sum id (\<lambda>tx. (tokenIds tx, accountId tx))
      (fromProtobuf exampleIds ([] :: string list) ([] :: string list) [] [4]
         [exampleBody, exampleBody\<lparr>tokenDissociate := None\<rparr>])"
    by (rule mp [OF inst [THEN conjunct1] same])
  have b: "\<exists>tx. fromProtobuf exampleIds [''t''] [''s''] [TransactionId 2 0] [3] [exampleBody] = Inr tx
         \<and> tokenIds tx = Some [Some 7, Some 9] \<and> accountId tx = None"
    using mp [OF inst [THEN conjunct2, THEN conjunct1] d] by (simp add: exampleIds_def)
  show ?thesis
    by (intro conjI) (rule a b)+
qed


text \<open>
  Claim C2, the round-trip law, for identifier conversions that round-trip through
  their wire form (the specification's assumption on identifier types). A frozen
  transaction whose bodies are those of its state, without signatures, is rebuilt from
  its bodies through the registry into a frozen transaction without signatures that
  carries the same bodies, and whose state serializes to the same bodies again. At the
  payload level, for a body list whose first body is a token-dissociate body,
  \<open>makeTransactionData\<close> of the transaction that \<open>fromProtobuf\<close> builds is the payload of
  that body, \<open>null\<close> fields included.
\<close>

theorem tokenDissociate_round_trip:
  fixes E :: "('tok, 'acct, 'ptok, 'pacct) IdMethods"
    and registry :: "string \<rightharpoonup> ('t list \<Rightarrow> 's list \<Rightarrow> 'acct TransactionId list \<Rightarrow> 'acct list \<Rightarrow>
      ('acct, 'ptok, 'pacct) TransactionBody list \<Rightarrow>
      ('tok, 'acct) EntityId error + ('tok, 'acct, 'ptok, 'pacct) TokenDissociateTransaction)"
  assumes tok: "\<forall>p. TokenId_toProtobuf E (TokenId_fromProtobuf E p) = p"
    and acc: "\<forall>p. AccountId_toProtobuf E (AccountId_fromProtobuf E p) = p"
  shows "(wireConsistent E original \<and> signatures original = [] \<longrightarrow>
            (\<exists>rebuilt.
               fromWire (TokenDissociateTransaction_register E registry) (bodyBytes original)
                 (transactionIds original) (nodeIds original) = Inr rebuilt
               \<and> toWireBodies rebuilt = toWireBodies original
               \<and> toWireBodies original = Inr (bodyBytes original)
               \<and> signatures rebuilt = []
               \<and> makeTransactionBodies E rebuilt = Inr (bodyBytes original)
               \<and> makeTransactionData E rebuilt = makeTransactionData E original))
         \<and> (tokenDissociate b = Some d \<longrightarrow>
              (\<exists>tx. fromProtobuf E ts ss ids nodes (b # rest) = Inr tx
                 \<and> makeTransactionData E tx = Inr d))"
proof -
  note payload = fromProtobuf_rebuilds_payload [OF tok acc]
  have wire: "wireConsistent E original \<and> signatures original = [] \<longrightarrow>
            (\<exists>rebuilt.
               fromWire (TokenDissociateTransaction_register E registry) (bodyBytes original)
                 (transactionIds original) (nodeIds original) = Inr rebuilt
               \<and> toWireBodies rebuilt = toWireBodies original
               \<and> toWireBodies original = Inr (bodyBytes original)
               \<and> signatures rebuilt = []
               \<and> makeTransactionBodies E rebuilt = Inr (bodyBytes original)
               \<and> makeTransactionData E rebuilt = makeTransactionData E original)"
  proof (intro impI, elim conjE)
    assume wc: "wireConsistent E original"
    from wc have made: "makeTransactionBodies E original = Inr (bodyBytes original)"
      and some: "bodyBytes original \<noteq> []"
      by (simp_all add: wireConsistent_def)
    from made obtain d where
      d: "makeTransactionData E original = Inr d" and
      bodies: "bodyBytes original = concat (map (\<lambda>t. map (\<lambda>n.
                 \<lparr>transactionID = t, nodeAccountID = n,
                  transactionFee = maxTransactionFee original,
                  data = Some (getTransactionDataCase original),
                  tokenDissociate = Some d\<rparr>) (nodeIds original)) (transactionIds original))"
      by (auto simp: makeTransactionBodies_def split: sum.splits)
    from some obtain b rest where cons: "bodyBytes original = b # rest"
      by (cases "bodyBytes original") auto
    then have "b \<in> set (bodyBytes original)" by simp
    then have b: "data b = Some ''tokenDissociate''" "tokenDissociate b = Some d"
      "transactionFee b = maxTransactionFee original"
      unfolding bodies by (auto simp: getTransactionDataCase_def)
    from payload [OF b(2), of "[] :: 't list" "[] :: 's list" "transactionIds original" "nodeIds original" rest]
    obtain rebuilt where
      r: "fromProtobuf E ([] :: 't list) ([] :: 's list) (transactionIds original) (nodeIds original) (b # rest) = Inr rebuilt"
        "makeTransactionData E rebuilt = Inr d"
        "transactionIds rebuilt = transactionIds original" "nodeIds rebuilt = nodeIds original"
        "signatures rebuilt = []" "frozen rebuilt"
        "maxTransactionFee rebuilt = transactionFee b" "bodyBytes rebuilt = b # rest"
      by blast
    have "fromWire (TokenDissociateTransaction_register E registry) (bodyBytes original)
        (transactionIds original) (nodeIds original) = Inr rebuilt"
      using r(1) b(1)
      by (simp add: fromWire_def cons constructFromWire_def TokenDissociateTransaction_register_def)
    moreover have "makeTransactionBodies E rebuilt = Inr (bodyBytes original)"
      using r b(3) by (simp add: makeTransactionBodies_def bodies getTransactionDataCase_def)
    ultimately show "\<exists>rebuilt.
               fromWire (TokenDissociateTransaction_register E registry) (bodyBytes original)
                 (transactionIds original) (nodeIds original) = Inr rebuilt
               \<and> toWireBodies rebuilt = toWireBodies original
               \<and> toWireBodies original = Inr (bodyBytes original)
               \<and> signatures rebuilt = []
               \<and> makeTransactionBodies E rebuilt = Inr (bodyBytes original)
               \<and> makeTransactionData E rebuilt = makeTransactionData E original"
      using r d cons wc by (auto simp: toWireBodies_def wireConsistent_def)
  qed
  have pay: "tokenDissociate b = Some d \<longrightarrow>
              (\<exists>tx. fromProtobuf E ts ss ids nodes (b # rest) = Inr tx
                 \<and> makeTransactionData E tx = Inr d)"
    using payload [of b d ts ss ids nodes rest] by blast
  show ?thesis
    by (intro conjI) (rule wire pay)+
qed


text \<open>An instance: the transaction frozen for the nodes 3 and 4, and a single decoded body.\<close>

theorem tokenDissociate_round_trip_witness:
  "wireConsistent exampleIds wiredDissociate \<and> signatures wiredDissociate = []
   \<and> (\<exists>rebuilt.
         fromWire (TokenDissociateTransaction_register exampleIds emptyRegistry)
           (bodyBytes wiredDissociate) (transactionIds wiredDissociate) (nodeIds wiredDissociate)
           = Inr rebuilt
         \<and> toWireBodies rebuilt = toWireBodies wiredDissociate
         \<and> toWireBodies wiredDissociate = Inr (bodyBytes wiredDissociate)
         \<and> signatures rebuilt = []
         \<and> makeTransactionBodies exampleIds rebuilt = Inr (bodyBytes wiredDissociate)
         \<and> makeTransactionData exampleIds rebuilt = makeTransactionData exampleIds wiredDissociate)
   \<and> (\<exists>tx. fromProtobuf exampleIds [''t''] [''s''] [TransactionId 2 0] [3] [exampleBody] = Inr tx
         \<and> makeTransactionData exampleIds tx = Inr \<lparr>tokens = Some [7, 9], account = None\<rparr>)"
proof -
  have tok: "\<forall>p. TokenId_toProtobuf exampleIds (TokenId_fromProtobuf exampleIds p) = p"
    by (simp add: exampleIds_def)
  have acc: "\<forall>p. AccountId_toProtobuf exampleIds (AccountId_fromProtobuf exampleIds p) = p"
    by (simp add: exampleIds_def)
  have d: "tokenDissociate exampleBody = Some \<lparr>tokens = Some [7, 9], account = None\<rparr>"
    by (simp add: exampleBody_def)
  note inst = tokenDissociate_round_trip [OF tok acc, of wiredDissociate emptyRegistry exampleBody
      "\<lparr>tokens = Some [7, 9], account = None\<rparr>" "[''t'']" "[''s'']" "[TransactionId 2 0]" "[3]" "[]"]
  have a: "\<exists>rebuilt.
         fromWire (TokenDissociateTransaction_register exampleIds emptyRegistry)
           (bodyBytes wiredDissociate) (transactionIds wiredDissociate) (nodeIds wiredDissociate)
           = Inr rebuilt
         \<and> toWireBodies rebuilt = toWireBodies wiredDissociate
         \<and> toWireBodies wiredDissociate = Inr (bodyBytes wiredDissociate)
         \<and> signatures rebuilt = []
         \<and> makeTransactionBodies exampleIds rebuilt = Inr (bodyBytes wiredDissociate)
         \<and> makeTransactionData exampleIds rebuilt = makeTransactionData exampleIds wiredDissociate"
    by (rule mp [OF inst [THEN conjunct1] wiredDissociate_consistent])
  have b: "\<exists>tx. fromProtobuf exampleIds [''t''] [''s''] [TransactionId 2 0] [3] [exampleBody] = Inr tx
         \<and> makeTransactionData exampleIds tx = Inr \<lparr>tokens = Some [7, 9], account = None\<rparr>"
    by (rule mp [OF inst [THEN conjunct2] d])
  show ?thesis
    by (intro conjI) (rule wiredDissociate_consistent [THEN conjunct1]
        wiredDissociate_consistent [THEN conjunct2] a b)+
qed


end
